theory Spec2Isabelle
  imports Main
begin

section \<open>The search service of steam-content-lookup\<close>

text \<open>
  A shallow embedding of \<^verbatim>\<open>src/app/services/search.service.ts\<close>: the class
  \<^verbatim>\<open>SearchService\<close> with its methods \<^verbatim>\<open>start\<close>, \<^verbatim>\<open>getSteamID\<close>,
  \<^verbatim>\<open>getSteamIDFromName\<close>, \<^verbatim>\<open>isValidID\<close> and \<^verbatim>\<open>getOwnedGames\<close>.

  Strings are \<^typ>\<open>string\<close> (ASCII search terms). A value that JavaScript may leave
  \<^verbatim>\<open>undefined\<close> is an \<^typ>\<open>'a option\<close> with \<^term>\<open>None\<close> for \<^verbatim>\<open>undefined\<close>.
  A promise is modelled by the way it settles; one invocation runs sequentially, so an
  \<^verbatim>\<open>await\<close> is a call that returns the settled value together with the new state.
  Everything the service does to the outside (events emitted on \<^verbatim>\<open>searchEvent\<close>,
  GET requests handed to \<^verbatim>\<open>this.http\<close>) is appended to one trace, in program order.
\<close>

subsection \<open>Enumerations, errors, events\<close>

datatype ESearchStates = Loading | Success | Failure

datatype ESearchTypes = SteamIDRetrieval | SteamIDValidation | SteamLibraryFetch

datatype ESteamIDTypes = ID64 | ProfileURL | ProfilePermalink | Nickname

text \<open>The payload of a response is opaque to the service: its JSON text.\<close>

type_synonym json = string

text \<open>
  The four error classes the service constructs carry the search term, the only variable
  part of their message. \<open>TypeError\<close> is what \<^verbatim>\<open>new URL\<close> throws;
  \<open>HttpErrorResponse\<close> (with the status code) is what a failed GET rejects with.
\<close>

datatype BaseError =
    InvalidSteamID64Error string
  | InvalidNicknameError string
  | InvalidProfileURLError string
  | InvalidPermalinkError string
  | TypeError
  | HttpErrorResponse nat

datatype ('e, 'a) promise = Rejected 'e | Resolved 'a

record Meta =
  input :: "string option"
  idtype :: "ESteamIDTypes option"

datatype result_value = SteamID "string option" | Games json

record Details =
  result :: "result_value option"
  error :: "BaseError option"
  meta :: "Meta option"

record ISearchResult =
  state :: ESearchStates
  type :: ESearchTypes
  details :: Details

subsection \<open>The service, its collaborators and its trace\<close>

text \<open>A GET request, by endpoint, with the text interpolated into its query string.\<close>

datatype request =
    ResolveVanityURL string
  | GetPlayerSummaries string
  | GetOwnedGames string

datatype action = Emit ISearchResult | HttpGet request

text \<open>
  \<open>searchActivated\<close> is declared \<^verbatim>\<open>boolean\<close> with no initialiser, so it may be
  \<^verbatim>\<open>undefined\<close>. \<open>trace\<close> records the emissions and requests so far.
\<close>

record SearchService =
  searchActivated :: "bool option"
  trace :: "action list"

text \<open>The constructor creates the event emitter and assigns nothing else.\<close>

definition constructor :: SearchService where
  "constructor = \<lparr>searchActivated = None, trace = []\<rparr>"

text \<open>The two properties of a parsed \<^verbatim>\<open>URL\<close> object that the service reads.\<close>

record URL =
  hostname :: string
  pathname :: string

text \<open>
  What the service imports and does not define: \<^verbatim>\<open>Validator.isNumeric\<close>
  (\<^verbatim>\<open>helpers/validator\<close>), the platform's \<^verbatim>\<open>URL\<close> constructor (\<^term>\<open>None\<close>
  when it throws), and the remote service behind \<^verbatim>\<open>HttpClient\<close>, one response per
  endpoint and query text. A response has the shape the service reads:
  \<^verbatim>\<open>response.steamid\<close>, \<^verbatim>\<open>response.players\<close>, and the owned-games payload.
\<close>

record platform =
  isNumeric :: "string \<Rightarrow> bool"
  URL_new :: "string \<Rightarrow> URL option"
  resolveVanity :: "string \<Rightarrow> (BaseError, string option) promise"
  playerSummaries :: "string \<Rightarrow> (BaseError, json list) promise"
  ownedGames :: "string \<Rightarrow> (BaseError, json) promise"

definition emit :: "ISearchResult \<Rightarrow> SearchService \<Rightarrow> SearchService" where
  "emit e s = s\<lparr>trace := trace s @ [Emit e]\<rparr>"

definition http_get :: "request \<Rightarrow> SearchService \<Rightarrow> SearchService" where
  "http_get r s = s\<lparr>trace := trace s @ [HttpGet r]\<rparr>"

text \<open>A template literal prints \<^verbatim>\<open>undefined\<close> as the word itself.\<close>

fun interpolate :: "string option \<Rightarrow> string" where
  "interpolate None = ''undefined''"
| "interpolate (Some s) = s"

text \<open>Truthiness of a \<^verbatim>\<open>boolean | undefined\<close> and of a \<^verbatim>\<open>string | undefined\<close>.\<close>

fun truthy :: "bool option \<Rightarrow> bool" where
  "truthy None = False"
| "truthy (Some b) = b"

fun truthy_string :: "string option \<Rightarrow> bool" where
  "truthy_string None = False"
| "truthy_string (Some s) = (s \<noteq> [])"

subsection \<open>String helpers of the platform\<close>

fun startsWith :: "string \<Rightarrow> string \<Rightarrow> bool" where
  "startsWith s [] = True"
| "startsWith [] (c # cs) = False"
| "startsWith (x # xs) (c # cs) = (x = c \<and> startsWith xs cs)"

text \<open>\<^verbatim>\<open>s.includes(t)\<close>: \<open>t\<close> occurs in \<open>s\<close> as a contiguous substring.\<close>

fun String_includes :: "string \<Rightarrow> string \<Rightarrow> bool" where
  "String_includes [] t = (t = [])"
| "String_includes (x # xs) t = (startsWith (x # xs) t \<or> String_includes xs t)"

text \<open>\<^verbatim>\<open>s.split(sep)\<close> for a one-character separator; never the empty list.\<close>

fun split :: "string \<Rightarrow> char \<Rightarrow> string list" where
  "split [] sep = [[]]"
| "split (c # cs) sep =
     (if c = sep then [] # split cs sep
      else (case split cs sep of [] \<Rightarrow> [[c]] | w # ws \<Rightarrow> (c # w) # ws))"

text \<open>\<^verbatim>\<open>xs[i]\<close>, which is \<^verbatim>\<open>undefined\<close> out of range.\<close>

fun at :: "'a list \<Rightarrow> nat \<Rightarrow> 'a option" where
  "at [] i = None"
| "at (x # xs) 0 = Some x"
| "at (x # xs) (Suc i) = at xs i"

subsection \<open>The URL expression\<close>

text \<open>
  The fragment of regular expressions that the literal in \<^verbatim>\<open>getSteamID\<close> uses:
  a character class, sequence, \<^verbatim>\<open>?\<close>, a class repeated \<^verbatim>\<open>{lo,hi}\<close> or \<^verbatim>\<open>*\<close>
  (\<open>hi = None\<close>), and the word boundary \<^verbatim>\<open>\b\<close>. Capture groups only group.
\<close>

datatype regex =
    Eps
  | Chars "char \<Rightarrow> bool"
  | Seq regex regex
  | Opt regex
  | Rep "char \<Rightarrow> bool" nat "nat option"
  | WordB

text \<open>A cursor is the character just before the position, if any, and the rest.\<close>

type_synonym cursor = "char option \<times> string"

definition lower_alpha :: "char \<Rightarrow> bool" where
  "lower_alpha c = (c \<in> set ''abcdefghijklmnopqrstuvwxyz'')"

definition upper_alpha :: "char \<Rightarrow> bool" where
  "upper_alpha c = (c \<in> set ''ABCDEFGHIJKLMNOPQRSTUVWXYZ'')"

definition digit :: "char \<Rightarrow> bool" where
  "digit c = (c \<in> set ''0123456789'')"

definition alnum :: "char \<Rightarrow> bool" where
  "alnum c = (lower_alpha c \<or> upper_alpha c \<or> digit c)"

text \<open>\<^verbatim>\<open>\w\<close> without the \<^verbatim>\<open>i\<close> and \<^verbatim>\<open>u\<close> flags.\<close>

definition word_char :: "char \<Rightarrow> bool" where
  "word_char c = (alnum c \<or> c = CHR ''_'')"

fun word_before :: "char option \<Rightarrow> bool" where
  "word_before None = False"
| "word_before (Some c) = word_char c"

fun word_after :: "string \<Rightarrow> bool" where
  "word_after [] = False"
| "word_after (c # cs) = word_char c"

text \<open>
  All ways to match a class between \<open>lo\<close> and \<open>hi\<close> times from a cursor, \<open>n\<close>
  characters being matched already.
\<close>

fun reps :: "(char \<Rightarrow> bool) \<Rightarrow> nat \<Rightarrow> nat option \<Rightarrow> nat \<Rightarrow> char option \<Rightarrow> string \<Rightarrow> cursor list" where
  "reps p lo hi n b [] = (if lo \<le> n then [(b, [])] else [])"
| "reps p lo hi n b (c # cs) =
     (if lo \<le> n then [(b, c # cs)] else []) @
     (if p c \<and> (case hi of None \<Rightarrow> True | Some h \<Rightarrow> n < h)
      then reps p lo hi (Suc n) (Some c) cs else [])"

text \<open>
  All cursors at which a match that starts at the given cursor can end. The expression
  has no back-reference and no look-around, so the backtracking matcher of JavaScript
  finds a match exactly when this list is not empty.
\<close>

fun rmatch :: "regex \<Rightarrow> cursor \<Rightarrow> cursor list" where
  "rmatch Eps k = [k]"
| "rmatch (Chars p) (b, []) = []"
| "rmatch (Chars p) (b, c # cs) = (if p c then [(Some c, cs)] else [])"
| "rmatch (Seq r1 r2) k = concat (map (rmatch r2) (rmatch r1 k))"
| "rmatch (Opt r) k = rmatch r k @ [k]"
| "rmatch (Rep p lo hi) (b, cs) = reps p lo hi 0 b cs"
| "rmatch WordB (b, cs) = (if word_before b \<noteq> word_after cs then [(b, cs)] else [])"

text \<open>Every position of the subject, as a cursor.\<close>

fun cursors :: "char option \<Rightarrow> string \<Rightarrow> cursor list" where
  "cursors b [] = [(b, [])]"
| "cursors b (c # cs) = (b, c # cs) # cursors (Some c) cs"

text \<open>
  \<^verbatim>\<open>s.match(r) !== null\<close> for a global expression: there is a match somewhere.
\<close>

definition matches :: "string \<Rightarrow> regex \<Rightarrow> bool" where
  "matches s r = list_ex (\<lambda>k. rmatch r k \<noteq> []) (cursors None s)"

text \<open>A literal string inside an expression.\<close>

fun Str :: "string \<Rightarrow> regex" where
  "Str [] = Eps"
| "Str (c # cs) = Seq (Chars (\<lambda>x. x = c)) (Str cs)"

text \<open>\<^verbatim>\<open>.\<close> matches any character but a line terminator.\<close>

definition any_char :: "char \<Rightarrow> bool" where
  "any_char c = (c \<noteq> CHR 0x0A \<and> c \<noteq> CHR 0x0D)"

text \<open>\<^verbatim>\<open>[-a-zA-Z0-9@:%._\+~#=]\<close>\<close>

definition domain_class :: "char \<Rightarrow> bool" where
  "domain_class c = (alnum c \<or> c \<in> set ''-@:%._+~#='')"

text \<open>\<^verbatim>\<open>[-a-zA-Z0-9@:%_\+.~#?&//=]\<close>\<close>

definition path_class :: "char \<Rightarrow> bool" where
  "path_class c = (alnum c \<or> c \<in> set ''-@:%_+.~#?&/='')"

text \<open>
  \<^verbatim>\<open>/(http(s)?:\/\/.)?(www\.)?[-a-zA-Z0-9@:%._\+~#=]{2,256}\.[a-z]{2,6}\b([-a-zA-Z0-9@:%_\+.~#?&//=]*)/g\<close>
\<close>

definition regex :: regex where
  "regex =
     Seq (Opt (Seq (Str ''http'') (Seq (Opt (Str ''s'')) (Seq (Str ''://'') (Chars any_char)))))
    (Seq (Opt (Str ''www.''))
    (Seq (Rep domain_class 2 (Some 256))
    (Seq (Str ''.'')
    (Seq (Rep lower_alpha 2 (Some 6))
    (Seq WordB
         (Rep path_class 0 None))))))"

subsection \<open>The remote calls\<close>

text \<open>
  \<^verbatim>\<open>getSteamIDFromName\<close>: emits the Loading event, then issues the vanity-resolution
  request. The value is \<^verbatim>\<open>res.response.steamid\<close> of the response.
\<close>

definition getSteamIDFromName ::
  "platform \<Rightarrow> string option \<Rightarrow> ESteamIDTypes \<Rightarrow> SearchService
     \<Rightarrow> (BaseError, string option) promise \<times> SearchService" where
  "getSteamIDFromName env inp ty s =
     (let s1 = emit \<lparr>state = Loading, type = SteamIDRetrieval,
                     details = \<lparr>result = None, error = None,
                                meta = Some \<lparr>input = inp, idtype = Some ty\<rparr>\<rparr>\<rparr> s;
          s2 = http_get (ResolveVanityURL (interpolate inp)) s1
      in (resolveVanity env (interpolate inp), s2))"

text \<open>
  \<^verbatim>\<open>isValidID\<close>: emits the Loading event, then issues the validation request.
  The value is \<^verbatim>\<open>validity.response.players\<close>.
\<close>

definition isValidID ::
  "platform \<Rightarrow> string option \<Rightarrow> ESteamIDTypes \<Rightarrow> SearchService
     \<Rightarrow> (BaseError, json list) promise \<times> SearchService" where
  "isValidID env ident ty s =
     (let s1 = emit \<lparr>state = Loading, type = SteamIDValidation,
                     details = \<lparr>result = None, error = None,
                                meta = Some \<lparr>input = ident, idtype = Some ty\<rparr>\<rparr>\<rparr> s;
          s2 = http_get (GetPlayerSummaries (interpolate ident)) s1
      in (playerSummaries env (interpolate ident), s2))"

text \<open>\<^verbatim>\<open>getOwnedGames\<close>: issues the owned-games request and emits nothing.\<close>

definition getOwnedGames ::
  "platform \<Rightarrow> string option \<Rightarrow> SearchService
     \<Rightarrow> (BaseError, json) promise \<times> SearchService" where
  "getOwnedGames env steamId s =
     (let s1 = http_get (GetOwnedGames (interpolate steamId)) s
      in (ownedGames env (interpolate steamId), s1))"

subsection \<open>Resolution of the search term\<close>

text \<open>
  \<^verbatim>\<open>url.pathname.split('/').filter((str) => str.length > 0)\<close>
\<close>

definition route_of :: "URL \<Rightarrow> string list" where
  "route_of url = filter (\<lambda>str. length str > 0) (split (pathname url) CHR ''/'')"

text \<open>
  \<^verbatim>\<open>getSteamID\<close>. The promise resolves with a string, resolves with
  \<^verbatim>\<open>undefined\<close> where the body ends without a \<^verbatim>\<open>return\<close>, or rejects with what
  was thrown: one of the four errors, the \<open>TypeError\<close> of \<^verbatim>\<open>new URL\<close>, or the
  rejection of an awaited request.
\<close>

definition getSteamID ::
  "platform \<Rightarrow> string \<Rightarrow> SearchService
     \<Rightarrow> (BaseError, string option) promise \<times> SearchService" where
  "getSteamID env searchTerm s =
     (if length searchTerm > 0 then
        if isNumeric env searchTerm then
          (case isValidID env (Some searchTerm) ID64 s of
             (Rejected e, s1) \<Rightarrow> (Rejected e, s1)
           | (Resolved players, s1) \<Rightarrow>
               if length players > 0 then (Resolved (Some searchTerm), s1)
               else (Rejected (InvalidSteamID64Error searchTerm), s1))
        else if matches searchTerm regex then
          (case URL_new env searchTerm of
             None \<Rightarrow> (Rejected TypeError, s)
           | Some url \<Rightarrow>
               if String_includes (hostname url) ''steamcommunity'' then
                 let route = route_of url in
                 if at route 0 = Some ''id'' then
                   (case getSteamIDFromName env (at route 1) ProfileURL s of
                      (Rejected e, s1) \<Rightarrow> (Rejected e, s1)
                    | (Resolved steamid, s1) \<Rightarrow>
                        if truthy_string steamid then (Resolved steamid, s1)
                        else (Rejected (InvalidProfileURLError searchTerm), s1))
                 else if at route 0 = Some ''profiles'' then
                   (case isValidID env (at route 1) ProfilePermalink s of
                      (Rejected e, s1) \<Rightarrow> (Rejected e, s1)
                    | (Resolved players, s1) \<Rightarrow>
                        if length players > 0 then (Resolved (at route 1), s1)
                        else (Rejected (InvalidPermalinkError searchTerm), s1))
                 else (Resolved None, s)
               else (Resolved None, s))
        else
          (case getSteamIDFromName env (Some searchTerm) Nickname s of
             (Rejected e, s1) \<Rightarrow> (Rejected e, s1)
           | (Resolved steamid, s1) \<Rightarrow>
               if truthy_string steamid then (Resolved steamid, s1)
               else (Rejected (InvalidNicknameError searchTerm), s1))
      else (Resolved None, s))"

subsection \<open>The orchestrator\<close>

text \<open>
  \<^verbatim>\<open>start\<close>: \<^verbatim>\<open>getSteamID(searchTerm).then(...).catch(...)\<close>. The fulfilment
  handler runs for every fulfilled value, \<^verbatim>\<open>undefined\<close> included. The outer promise is
  settled by \<^verbatim>\<open>resolve()\<close> or \<^verbatim>\<open>reject()\<close>, without a payload.
\<close>

definition start ::
  "platform \<Rightarrow> string \<Rightarrow> SearchService \<Rightarrow> (unit, unit) promise \<times> SearchService" where
  "start env searchTerm s =
     (case getSteamID env searchTerm s of
        (Resolved res, s1) \<Rightarrow>
          (let s2 = (if truthy (searchActivated s1)
                     then emit \<lparr>state = Success, type = SteamIDRetrieval,
                                details = \<lparr>result = Some (SteamID res), error = None,
                                           meta = Some \<lparr>input = Some searchTerm, idtype = None\<rparr>\<rparr>\<rparr> s1
                     else s1)
           in (case getOwnedGames env res s2 of
                 (Resolved games, s3) \<Rightarrow>
                   (Resolved (),
                    emit \<lparr>state = Success, type = SteamLibraryFetch,
                          details = \<lparr>result = Some (Games games), error = None, meta = None\<rparr>\<rparr> s3)
               | (Rejected err, s3) \<Rightarrow>
                   (Rejected (),
                    emit \<lparr>state = Failure, type = SteamLibraryFetch,
                          details = \<lparr>result = None, error = Some err, meta = None\<rparr>\<rparr> s3)))
      | (Rejected err, s1) \<Rightarrow>
          (let s2 = (if truthy (searchActivated s1)
                     then emit \<lparr>state = Failure, type = SteamIDRetrieval,
                                details = \<lparr>result = None, error = Some err,
                                           meta = Some \<lparr>input = Some searchTerm, idtype = None\<rparr>\<rparr>\<rparr> s1
                     else s1)
           in (Rejected (), s2)))"

subsection \<open>A reference platform\<close>

text \<open>
  Modelled from the spec: \<^verbatim>\<open>Validator.isNumeric\<close> of \<^verbatim>\<open>helpers/validator\<close>, which is
  not among the sources. The spec's classifier takes the numeric branch when ``the term is
  entirely numeric digits''.
\<close>

definition Validator_isNumeric :: "string \<Rightarrow> bool" where
  "Validator_isNumeric s = (s \<noteq> [] \<and> list_all digit s)"

text \<open>
  A model of the platform's \<^verbatim>\<open>new URL(input)\<close> (the URL Standard's parser, called
  without a base) for ASCII input, as far as \<^verbatim>\<open>hostname\<close> and \<^verbatim>\<open>pathname\<close> go:
  \<^item> leading and trailing control characters and spaces are dropped, and so is every
    tab and newline;
  \<^item> an input that then does not begin with a scheme (a letter, then letters, digits,
    \<^verbatim>\<open>+\<close>, \<^verbatim>\<open>-\<close>, \<^verbatim>\<open>.\<close>, then a colon) is relative, and without a base the
    constructor throws;
  \<^item> after \<^verbatim>\<open>http\<close>, \<^verbatim>\<open>https\<close>, \<^verbatim>\<open>ws\<close>, \<^verbatim>\<open>wss\<close> or \<^verbatim>\<open>ftp\<close>, any run of
    slashes and backslashes is skipped, the authority runs to the next slash, backslash,
    \<^verbatim>\<open>?\<close> or \<^verbatim>\<open>#\<close>, the host is what follows the last \<^verbatim>\<open>@\<close> up to a colon, in
    lower case, an empty host throws, and a backslash in the path counts as a slash;
  \<^item> after another scheme, an authority is read only behind \<^verbatim>\<open>//\<close>; without it a
    path that does not begin with a slash is opaque and is kept as it is;
  \<^item> the path ends at \<^verbatim>\<open>?\<close> or \<^verbatim>\<open>#\<close>; in a path that is not opaque the segments
    \<^verbatim>\<open>.\<close> and \<^verbatim>\<open>..\<close> are resolved, and \<^verbatim>\<open>pathname\<close> is every remaining segment
    behind a slash.

  Left out: percent-encoding, internationalised names, IP literals, validation of the
  host's characters and of the port, and the special rules of \<^verbatim>\<open>file:\<close>.
\<close>

definition c0_or_space :: "char \<Rightarrow> bool" where
  "c0_or_space c = (of_char c \<le> (32 :: nat))"

definition tab_or_newline :: "char \<Rightarrow> bool" where
  "tab_or_newline c = (c = CHR 0x09 \<or> c = CHR 0x0A \<or> c = CHR 0x0D)"

definition strip :: "string \<Rightarrow> string" where
  "strip inp =
     filter (\<lambda>c. \<not> tab_or_newline c)
       (rev (dropWhile c0_or_space (rev (dropWhile c0_or_space inp))))"

definition scheme_char :: "char \<Rightarrow> bool" where
  "scheme_char c = (alnum c \<or> c \<in> set ''+-.'')"

definition to_lower :: "char \<Rightarrow> char" where
  "to_lower c =
     (case map_of (zip ''ABCDEFGHIJKLMNOPQRSTUVWXYZ'' ''abcdefghijklmnopqrstuvwxyz'') c of
        None \<Rightarrow> c | Some l \<Rightarrow> l)"

definition scheme_of :: "string \<Rightarrow> (string \<times> string) option" where
  "scheme_of inp =
     (case inp of
        [] \<Rightarrow> None
      | c # cs \<Rightarrow>
          if lower_alpha c \<or> upper_alpha c then
            (case dropWhile scheme_char inp of
               [] \<Rightarrow> None
             | d # rest \<Rightarrow>
                 if d = CHR '':'' then Some (map to_lower (takeWhile scheme_char inp), rest)
                 else None)
          else None)"

definition special_scheme :: "string \<Rightarrow> bool" where
  "special_scheme sch = (sch \<in> set [''http'', ''https'', ''ws'', ''wss'', ''ftp''])"

definition backslash :: char where
  "backslash = CHR 0x5C"

definition slash_like :: "char \<Rightarrow> bool" where
  "slash_like c = (c = CHR ''/'' \<or> c = backslash)"

definition in_authority :: "bool \<Rightarrow> char \<Rightarrow> bool" where
  "in_authority special c =
     (c \<noteq> CHR ''/'' \<and> c \<noteq> CHR ''?'' \<and> c \<noteq> CHR ''#'' \<and> (if special then c \<noteq> backslash else True))"

definition in_path :: "char \<Rightarrow> bool" where
  "in_path c = (c \<noteq> CHR ''?'' \<and> c \<noteq> CHR ''#'')"

definition host_of :: "string \<Rightarrow> string" where
  "host_of authority = takeWhile (\<lambda>c. c \<noteq> CHR '':'') (last (split authority CHR ''@''))"

text \<open>
  The segments of a path, \<open>acc\<close> being those kept so far: \<^verbatim>\<open>..\<close> removes the last
  one kept, \<^verbatim>\<open>.\<close> is skipped, and either of them in last place leaves an empty segment.
\<close>

fun dot_segments :: "string list \<Rightarrow> string list \<Rightarrow> string list" where
  "dot_segments acc [] = acc"
| "dot_segments acc [seg] =
     (if seg = ''..'' then butlast acc @ [[]]
      else if seg = ''.'' then acc @ [[]]
      else acc @ [seg])"
| "dot_segments acc (seg # nxt # rest) =
     (if seg = ''..'' then dot_segments (butlast acc) (nxt # rest)
      else if seg = ''.'' then dot_segments acc (nxt # rest)
      else dot_segments (acc @ [seg]) (nxt # rest))"

text \<open>The \<^verbatim>\<open>pathname\<close> of a path that begins with a slash, or of the empty path of a
  special scheme.\<close>

definition path_of :: "string \<Rightarrow> string" where
  "path_of p =
     concat (map (\<lambda>seg. CHR ''/'' # seg)
       (dot_segments [] (split (case p of [] \<Rightarrow> [] | c # cs \<Rightarrow> cs) CHR ''/'')))"

definition URL_parse :: "string \<Rightarrow> URL option" where
  "URL_parse inp =
     (case scheme_of (strip inp) of
        None \<Rightarrow> None
      | Some (sch, rest) \<Rightarrow>
          if special_scheme sch then
            (let r1 = dropWhile slash_like rest;
                 host = map to_lower (host_of (takeWhile (in_authority True) r1));
                 path = takeWhile in_path (dropWhile (in_authority True) r1)
             in if host = [] then None
                else Some \<lparr>hostname = host,
                           pathname = path_of (map (\<lambda>c. if c = backslash then CHR ''/'' else c) path)\<rparr>)
          else if startsWith rest ''//'' then
            (let r1 = drop 2 rest;
                 path = takeWhile in_path (dropWhile (in_authority False) r1)
             in Some \<lparr>hostname = host_of (takeWhile (in_authority False) r1),
                      pathname = (if path = [] then [] else path_of path)\<rparr>)
          else if startsWith rest ''/'' then
            Some \<lparr>hostname = [], pathname = path_of (takeWhile in_path rest)\<rparr>
          else Some \<lparr>hostname = [], pathname = takeWhile in_path rest\<rparr>)"

text \<open>
  A sample of the remote service: one vanity name and one account are known, and the
  owned games of that account can be fetched. Everything else is answered as unknown.
\<close>

definition steam :: platform where
  "steam =
     \<lparr>isNumeric = Validator_isNumeric,
      URL_new = URL_parse,
      resolveVanity = (\<lambda>name. if name = ''gaben'' then Resolved (Some ''76561197960287930'')
                               else Resolved None),
      playerSummaries = (\<lambda>ident. if ident = ''76561197960287930'' then Resolved [''gaben'']
                                  else Resolved []),
      ownedGames = (\<lambda>ident. if ident = ''76561197960287930'' then Resolved ''games''
                             else Rejected (HttpErrorResponse 400))\<rparr>"

subsection \<open>Observations on a trace\<close>

text \<open>What an invocation that took the service from \<open>s\<close> to \<open>s'\<close> appended.\<close>

definition performed :: "SearchService \<Rightarrow> SearchService \<Rightarrow> action list" where
  "performed s s' = drop (length (trace s)) (trace s')"

text \<open>A Success or Failure event of the Steam-ID retrieval phase.\<close>

fun identity_settled :: "action \<Rightarrow> bool" where
  "identity_settled (Emit e) =
     (type e = SteamIDRetrieval \<and> (state e = Success \<or> state e = Failure))"
| "identity_settled (HttpGet r) = False"

text \<open>The library-fetch phase: the owned-games request and the events of its type.\<close>

fun library_fetch :: "action \<Rightarrow> bool" where
  "library_fetch (Emit e) = (type e = SteamLibraryFetch)"
| "library_fetch (HttpGet (GetOwnedGames x)) = True"
| "library_fetch (HttpGet (ResolveVanityURL x)) = False"
| "library_fetch (HttpGet (GetPlayerSummaries x)) = False"

fun is_request :: "action \<Rightarrow> bool" where
  "is_request (Emit e) = False"
| "is_request (HttpGet r) = True"

fun validation_request :: "action \<Rightarrow> bool" where
  "validation_request (HttpGet (GetPlayerSummaries x)) = True"
| "validation_request (HttpGet (ResolveVanityURL x)) = False"
| "validation_request (HttpGet (GetOwnedGames x)) = False"
| "validation_request (Emit e) = False"

text \<open>The Loading event of a request made with input \<open>inp\<close> of kind \<open>ty\<close>.\<close>

definition loading :: "ESearchTypes \<Rightarrow> string option \<Rightarrow> ESteamIDTypes \<Rightarrow> ISearchResult" where
  "loading phase inp ty =
     \<lparr>state = Loading, type = phase,
      details = \<lparr>result = None, error = None, meta = Some \<lparr>input = inp, idtype = Some ty\<rparr>\<rparr>\<rparr>"

text \<open>The event by which \<^verbatim>\<open>start\<close> reports a rejected resolution.\<close>

definition retrieval_failure :: "BaseError \<Rightarrow> string \<Rightarrow> ISearchResult" where
  "retrieval_failure err searchTerm =
     \<lparr>state = Failure, type = SteamIDRetrieval,
      details = \<lparr>result = None, error = Some err,
                 meta = Some \<lparr>input = Some searchTerm, idtype = None\<rparr>\<rparr>\<rparr>"

text \<open>The event by which \<^verbatim>\<open>start\<close> reports a fulfilled resolution.\<close>

definition retrieval_success :: "string option \<Rightarrow> string \<Rightarrow> ISearchResult" where
  "retrieval_success res searchTerm =
     \<lparr>state = Success, type = SteamIDRetrieval,
      details = \<lparr>result = Some (SteamID res), error = None,
                 meta = Some \<lparr>input = Some searchTerm, idtype = None\<rparr>\<rparr>\<rparr>"

text \<open>The event that closes the library-fetch phase, by the way the request settled.\<close>

fun fetch_event :: "(BaseError, json) promise \<Rightarrow> ISearchResult" where
  "fetch_event (Resolved games) =
     \<lparr>state = Success, type = SteamLibraryFetch,
      details = \<lparr>result = Some (Games games), error = None, meta = None\<rparr>\<rparr>"
| "fetch_event (Rejected err) =
     \<lparr>state = Failure, type = SteamLibraryFetch,
      details = \<lparr>result = None, error = Some err, meta = None\<rparr>\<rparr>"

text \<open>Successive invocations on one service, each awaited before the next.\<close>

fun starts :: "platform \<Rightarrow> string list \<Rightarrow> SearchService \<Rightarrow> SearchService" where
  "starts env [] s = s"
| "starts env (t # ts) s = starts env ts (snd (start env t s))"

section \<open>Properties\<close>

subsection \<open>What the resolution stage and the orchestrator append to the trace\<close>

lemmas remote_defs =
  getSteamIDFromName_def isValidID_def getOwnedGames_def emit_def http_get_def

lemma getSteamID_flag: "searchActivated (snd (getSteamID env t s)) = searchActivated s"
  by (simp add: getSteamID_def remote_defs Let_def split: promise.splits option.splits)

lemma getSteamID_trace:
  "\<exists>acts. trace (snd (getSteamID env t s)) = trace s @ acts
        \<and> list_all (\<lambda>a. \<not> identity_settled a \<and> \<not> library_fetch a) acts"
  by (simp add: getSteamID_def remote_defs Let_def split: promise.splits option.splits)

text \<open>
  The resolution stage issues at most one request, and announces it: just before the
  request it emits the Loading event of its phase, with the same input.
\<close>

lemma getSteamID_announces:
  "performed s (snd (getSteamID env t s)) = []
   \<or> (\<exists>inp ty. performed s (snd (getSteamID env t s)) =
         [Emit (loading SteamIDRetrieval inp ty), HttpGet (ResolveVanityURL (interpolate inp))])
   \<or> (\<exists>inp ty. performed s (snd (getSteamID env t s)) =
         [Emit (loading SteamIDValidation inp ty), HttpGet (GetPlayerSummaries (interpolate inp))])"
  by (simp add: getSteamID_def remote_defs performed_def loading_def Let_def
        split: promise.splits option.splits)

text \<open>What the resolution stage appends, by the branch the term takes.\<close>

lemma getSteamID_performed:
  "performed s (snd (getSteamID env t s)) =
     (if t = [] then []
      else if isNumeric env t then
        [Emit (loading SteamIDValidation (Some t) ID64), HttpGet (GetPlayerSummaries t)]
      else if matches t regex then
        (case URL_new env t of
           None \<Rightarrow> []
         | Some url \<Rightarrow>
             if String_includes (hostname url) ''steamcommunity'' then
               if at (route_of url) 0 = Some ''id'' then
                 [Emit (loading SteamIDRetrieval (at (route_of url) 1) ProfileURL),
                  HttpGet (ResolveVanityURL (interpolate (at (route_of url) 1)))]
               else if at (route_of url) 0 = Some ''profiles'' then
                 [Emit (loading SteamIDValidation (at (route_of url) 1) ProfilePermalink),
                  HttpGet (GetPlayerSummaries (interpolate (at (route_of url) 1)))]
               else []
             else [])
      else [Emit (loading SteamIDRetrieval (Some t) Nickname), HttpGet (ResolveVanityURL t)])"
  by (simp add: getSteamID_def remote_defs performed_def loading_def Let_def
        split: promise.splits option.splits)

lemma getSteamID_set_flag:
  "getSteamID env t (s\<lparr>searchActivated := f\<rparr>) =
     (fst (getSteamID env t s), (snd (getSteamID env t s))\<lparr>searchActivated := f\<rparr>)"
  by (simp add: getSteamID_def remote_defs Let_def split: promise.splits option.splits)

lemma start_unfold:
  "start env t s =
    (case fst (getSteamID env t s) of
       Resolved res \<Rightarrow>
         (case ownedGames env (interpolate res) of
            Resolved g \<Rightarrow> Resolved () | Rejected e \<Rightarrow> Rejected (),
          (snd (getSteamID env t s))\<lparr>trace := trace (snd (getSteamID env t s))
             @ (if truthy (searchActivated s) then [Emit (retrieval_success res t)] else [])
             @ [HttpGet (GetOwnedGames (interpolate res)),
                Emit (fetch_event (ownedGames env (interpolate res)))]\<rparr>)
     | Rejected err \<Rightarrow>
         (Rejected (),
          (snd (getSteamID env t s))\<lparr>trace := trace (snd (getSteamID env t s))
             @ (if truthy (searchActivated s) then [Emit (retrieval_failure err t)] else [])\<rparr>))"
  using getSteamID_flag [of env t s]
  by (cases "getSteamID env t s")
     (simp add: start_def getOwnedGames_def emit_def http_get_def Let_def retrieval_success_def
        retrieval_failure_def split: promise.splits)

lemma performed_append: "trace s' = trace s @ acts \<Longrightarrow> performed s s' = acts"
  by (simp add: performed_def)

lemma start_trace:
  "trace (snd (start env t s)) =
     trace (snd (getSteamID env t s)) @
     (case fst (getSteamID env t s) of
        Resolved res \<Rightarrow>
          (if truthy (searchActivated s) then [Emit (retrieval_success res t)] else []) @
          [HttpGet (GetOwnedGames (interpolate res)),
           Emit (fetch_event (ownedGames env (interpolate res)))]
      | Rejected err \<Rightarrow>
          (if truthy (searchActivated s) then [Emit (retrieval_failure err t)] else []))"
  by (simp add: start_unfold split: promise.splits)

lemma start_outcome:
  "fst (start env t s) =
     (case fst (getSteamID env t s) of
        Resolved res \<Rightarrow>
          (case ownedGames env (interpolate res) of
             Resolved g \<Rightarrow> Resolved () | Rejected e \<Rightarrow> Rejected ())
      | Rejected err \<Rightarrow> Rejected ())"
  by (simp add: start_unfold split: promise.splits)

lemma start_flag: "searchActivated (snd (start env t s)) = searchActivated s"
  by (simp add: start_unfold getSteamID_flag split: promise.splits)

lemma fetch_event_type: "type (fetch_event p) = SteamLibraryFetch"
  by (cases p) simp_all

lemma filter_unsettled:
  "list_all (\<lambda>a. \<not> identity_settled a \<and> \<not> library_fetch a) acts
     \<Longrightarrow> filter (\<lambda>a. \<not> identity_settled a) acts = acts"
  by (induction acts) simp_all

lemma quiet_unsettled:
  "list_all (\<lambda>a. \<not> identity_settled a \<and> \<not> library_fetch a) acts
     \<Longrightarrow> list_all (\<lambda>a. \<not> identity_settled a) acts"
  by (induction acts) simp_all

lemma quiet_no_fetch:
  "list_all (\<lambda>a. \<not> identity_settled a \<and> \<not> library_fetch a) acts
     \<Longrightarrow> list_all (\<lambda>a. \<not> library_fetch a) acts"
  by (induction acts) simp_all

subsection \<open>The activation flag\<close>

text \<open>
  Claim C1. Take any search term, any behaviour of the collaborators and any value \<open>f\<close>
  of the activation flag, and let \<open>P f\<close> be what one invocation of \<^verbatim>\<open>start\<close> appends
  to the trace under flag \<open>f\<close>, and \<open>R\<close> what the resolution stage appends.

  \<open>P f\<close> is \<open>R\<close>, then the Success or Failure event of the retrieval phase if and only
  if \<open>f\<close> is true, then, if the stage resolved, the owned-games request and the Success
  or Failure event of the library-fetch phase. \<open>R\<close> does not depend on the flag: by the
  branch the term takes it is empty, or the Loading event of the phase followed by the
  request it announces. So the Loading events are emitted and the requests are issued
  whatever the flag.

  Consequently, for any second value \<open>g\<close> of the flag, \<open>P f\<close> and \<open>P g\<close> agree apart
  from the Success and Failure events of the retrieval phase, they hold the same requests,
  and the invocation settles the same way; under a flag that is not true \<open>P f\<close> holds no
  Success or Failure event of the retrieval phase; and whenever the resolution stage
  resolves, \<open>P f\<close> ends with the owned-games request and the event of the library-fetch
  phase.
\<close>

theorem C1_flag_gates_only_retrieval_settlement:
  "(let P = (\<lambda>f. performed s (snd (start env t (s\<lparr>searchActivated := f\<rparr>))));
        R = performed s (snd (getSteamID env t s)) in
      P f = R @
        (case fst (getSteamID env t s) of
           Resolved res \<Rightarrow>
             (if truthy f then [Emit (retrieval_success res t)] else []) @
             [HttpGet (GetOwnedGames (interpolate res)),
              Emit (fetch_event (ownedGames env (interpolate res)))]
         | Rejected err \<Rightarrow>
             (if truthy f then [Emit (retrieval_failure err t)] else []))
    \<and> R =
        (if t = [] then []
         else if isNumeric env t then
           [Emit (loading SteamIDValidation (Some t) ID64), HttpGet (GetPlayerSummaries t)]
         else if matches t regex then
           (case URL_new env t of
              None \<Rightarrow> []
            | Some url \<Rightarrow>
                if String_includes (hostname url) ''steamcommunity'' then
                  if at (route_of url) 0 = Some ''id'' then
                    [Emit (loading SteamIDRetrieval (at (route_of url) 1) ProfileURL),
                     HttpGet (ResolveVanityURL (interpolate (at (route_of url) 1)))]
                  else if at (route_of url) 0 = Some ''profiles'' then
                    [Emit (loading SteamIDValidation (at (route_of url) 1) ProfilePermalink),
                     HttpGet (GetPlayerSummaries (interpolate (at (route_of url) 1)))]
                  else []
                else [])
         else [Emit (loading SteamIDRetrieval (Some t) Nickname), HttpGet (ResolveVanityURL t)])
    \<and> trace (snd (start env t (s\<lparr>searchActivated := f\<rparr>))) = trace s @ P f
    \<and> filter (\<lambda>a. \<not> identity_settled a) (P f) = filter (\<lambda>a. \<not> identity_settled a) (P g)
    \<and> filter is_request (P f) = filter is_request (P g)
    \<and> fst (start env t (s\<lparr>searchActivated := f\<rparr>)) = fst (start env t (s\<lparr>searchActivated := g\<rparr>))
    \<and> (\<not> truthy f \<longrightarrow> list_all (\<lambda>a. \<not> identity_settled a) (P f))
    \<and> (\<forall>res. fst (getSteamID env t s) = Resolved res \<longrightarrow>
          (\<exists>acts. P f = acts @ [HttpGet (GetOwnedGames (interpolate res)),
                               Emit (fetch_event (ownedGames env (interpolate res)))])))"
proof -
  obtain acts where acts: "trace (snd (getSteamID env t s)) = trace s @ acts"
    and quiet: "list_all (\<lambda>a. \<not> identity_settled a \<and> \<not> library_fetch a) acts"
    using getSteamID_trace by blast
  have R: "performed s (snd (getSteamID env t s)) = acts"
    by (rule performed_append) (rule acts)
  have T: "trace (snd (start env t (s\<lparr>searchActivated := h\<rparr>))) =
      trace s @ acts @
      (case fst (getSteamID env t s) of
        Resolved res \<Rightarrow>
          (if truthy h then [Emit (retrieval_success res t)] else []) @
          [HttpGet (GetOwnedGames (interpolate res)),
           Emit (fetch_event (ownedGames env (interpolate res)))]
      | Rejected err \<Rightarrow>
          (if truthy h then [Emit (retrieval_failure err t)] else []))" for h
    by (simp add: start_trace getSteamID_set_flag acts split: promise.splits)
  have P: "performed s (snd (start env t (s\<lparr>searchActivated := h\<rparr>))) =
      acts @
      (case fst (getSteamID env t s) of
        Resolved res \<Rightarrow>
          (if truthy h then [Emit (retrieval_success res t)] else []) @
          [HttpGet (GetOwnedGames (interpolate res)),
           Emit (fetch_event (ownedGames env (interpolate res)))]
      | Rejected err \<Rightarrow>
          (if truthy h then [Emit (retrieval_failure err t)] else []))" for h
    by (rule performed_append) (simp add: T)
  have branch: "acts =
        (if t = [] then []
         else if isNumeric env t then
           [Emit (loading SteamIDValidation (Some t) ID64), HttpGet (GetPlayerSummaries t)]
         else if matches t regex then
           (case URL_new env t of
              None \<Rightarrow> []
            | Some url \<Rightarrow>
                if String_includes (hostname url) ''steamcommunity'' then
                  if at (route_of url) 0 = Some ''id'' then
                    [Emit (loading SteamIDRetrieval (at (route_of url) 1) ProfileURL),
                     HttpGet (ResolveVanityURL (interpolate (at (route_of url) 1)))]
                  else if at (route_of url) 0 = Some ''profiles'' then
                    [Emit (loading SteamIDValidation (at (route_of url) 1) ProfilePermalink),
                     HttpGet (GetPlayerSummaries (interpolate (at (route_of url) 1)))]
                  else []
                else [])
         else [Emit (loading SteamIDRetrieval (Some t) Nickname), HttpGet (ResolveVanityURL t)])"
    using getSteamID_performed [of s env t] by (simp only: R)
  have rest:
    "filter (\<lambda>a. \<not> identity_settled a) (performed s (snd (start env t (s\<lparr>searchActivated := f\<rparr>))))
       = filter (\<lambda>a. \<not> identity_settled a) (performed s (snd (start env t (s\<lparr>searchActivated := g\<rparr>))))
    \<and> filter is_request (performed s (snd (start env t (s\<lparr>searchActivated := f\<rparr>))))
       = filter is_request (performed s (snd (start env t (s\<lparr>searchActivated := g\<rparr>))))
    \<and> fst (start env t (s\<lparr>searchActivated := f\<rparr>)) = fst (start env t (s\<lparr>searchActivated := g\<rparr>))
    \<and> (\<not> truthy f \<longrightarrow> list_all (\<lambda>a. \<not> identity_settled a)
           (performed s (snd (start env t (s\<lparr>searchActivated := f\<rparr>)))))
    \<and> (\<forall>res. fst (getSteamID env t s) = Resolved res \<longrightarrow>
          (\<exists>acts. performed s (snd (start env t (s\<lparr>searchActivated := f\<rparr>)))
                   = acts @ [HttpGet (GetOwnedGames (interpolate res)),
                             Emit (fetch_event (ownedGames env (interpolate res)))]))"
    unfolding P
    by (simp add: start_outcome getSteamID_set_flag filter_unsettled [OF quiet]
          quiet_unsettled [OF quiet] retrieval_success_def retrieval_failure_def
          fetch_event_type split: promise.splits)
  have first: "performed s (snd (start env t (s\<lparr>searchActivated := f\<rparr>))) =
      performed s (snd (getSteamID env t s)) @
      (case fst (getSteamID env t s) of
        Resolved res \<Rightarrow>
          (if truthy f then [Emit (retrieval_success res t)] else []) @
          [HttpGet (GetOwnedGames (interpolate res)),
           Emit (fetch_event (ownedGames env (interpolate res)))]
      | Rejected err \<Rightarrow>
          (if truthy f then [Emit (retrieval_failure err t)] else []))"
    by (simp only: P R)
  have third: "trace (snd (start env t (s\<lparr>searchActivated := f\<rparr>))) =
      trace s @ performed s (snd (start env t (s\<lparr>searchActivated := f\<rparr>)))"
    by (simp only: P T)
  have second: "performed s (snd (getSteamID env t s)) =
        (if t = [] then []
         else if isNumeric env t then
           [Emit (loading SteamIDValidation (Some t) ID64), HttpGet (GetPlayerSummaries t)]
         else if matches t regex then
           (case URL_new env t of
              None \<Rightarrow> []
            | Some url \<Rightarrow>
                if String_includes (hostname url) ''steamcommunity'' then
                  if at (route_of url) 0 = Some ''id'' then
                    [Emit (loading SteamIDRetrieval (at (route_of url) 1) ProfileURL),
                     HttpGet (ResolveVanityURL (interpolate (at (route_of url) 1)))]
                  else if at (route_of url) 0 = Some ''profiles'' then
                    [Emit (loading SteamIDValidation (at (route_of url) 1) ProfilePermalink),
                     HttpGet (GetPlayerSummaries (interpolate (at (route_of url) 1)))]
                  else []
                else [])
         else [Emit (loading SteamIDRetrieval (Some t) Nickname), HttpGet (ResolveVanityURL t)])"
    by (rule getSteamID_performed)
  show ?thesis
    unfolding Let_def
    using first second third rest by blast
qed

theorem C1_witness:
  "\<not> truthy (Some False)
   \<and> fst (getSteamID steam ''76561197960287930'' constructor) = Resolved (Some ''76561197960287930'')
   \<and> performed constructor
        (snd (start steam ''76561197960287930'' (constructor\<lparr>searchActivated := Some False\<rparr>)))
       = [Emit (loading SteamIDValidation (Some ''76561197960287930'') ID64),
          HttpGet (GetPlayerSummaries ''76561197960287930''),
          HttpGet (GetOwnedGames ''76561197960287930''),
          Emit (fetch_event (Resolved ''games''))]
   \<and> performed constructor
        (snd (start steam ''76561197960287930'' (constructor\<lparr>searchActivated := Some True\<rparr>)))
       = [Emit (loading SteamIDValidation (Some ''76561197960287930'') ID64),
          HttpGet (GetPlayerSummaries ''76561197960287930''),
          Emit (retrieval_success (Some ''76561197960287930'') ''76561197960287930''),
          HttpGet (GetOwnedGames ''76561197960287930''),
          Emit (fetch_event (Resolved ''games''))]
   \<and> list_all (\<lambda>a. \<not> identity_settled a)
        (performed constructor
           (snd (start steam ''76561197960287930'' (constructor\<lparr>searchActivated := Some False\<rparr>))))
   \<and> fst (getSteamID steam ''nobody'' constructor) = Rejected (InvalidNicknameError ''nobody'')
   \<and> performed constructor (snd (start steam ''nobody'' (constructor\<lparr>searchActivated := Some False\<rparr>)))
       = [Emit (loading SteamIDRetrieval (Some ''nobody'') Nickname),
          HttpGet (ResolveVanityURL ''nobody'')]
   \<and> performed constructor (snd (start steam ''nobody'' (constructor\<lparr>searchActivated := Some True\<rparr>)))
       = [Emit (loading SteamIDRetrieval (Some ''nobody'') Nickname),
          HttpGet (ResolveVanityURL ''nobody''),
          Emit (retrieval_failure (InvalidNicknameError ''nobody'') ''nobody'')]"
proof -
  let ?t = "''76561197960287930''"
  let ?n = "''nobody''"
  note A = C1_flag_gates_only_retrieval_settlement [of constructor steam ?t "Some False" "Some True", unfolded Let_def]
  note B = C1_flag_gates_only_retrieval_settlement [of constructor steam ?t "Some True" "Some False", unfolded Let_def]
  note C = C1_flag_gates_only_retrieval_settlement [of constructor steam ?n "Some False" "Some True", unfolded Let_def]
  note D = C1_flag_gates_only_retrieval_settlement [of constructor steam ?n "Some True" "Some False", unfolded Let_def]
  have resolved: "fst (getSteamID steam ?t constructor) = Resolved (Some ?t)"
    by code_simp
  have numeric: "isNumeric steam ?t" by code_simp
  have games: "ownedGames steam ?t = Resolved ''games''"
    by (simp add: steam_def)
  have rejected: "fst (getSteamID steam ?n constructor) = Rejected (InvalidNicknameError ?n)"
    by code_simp
  have b1: "\<not> isNumeric steam ?n" by code_simp
  have b2: "\<not> matches ?n regex" by code_simp
  have R1: "performed constructor (snd (getSteamID steam ?t constructor)) =
      [Emit (loading SteamIDValidation (Some ?t) ID64), HttpGet (GetPlayerSummaries ?t)]"
    using A [THEN conjunct2, THEN conjunct1] numeric by simp
  have R2: "performed constructor (snd (getSteamID steam ?n constructor)) =
      [Emit (loading SteamIDRetrieval (Some ?n) Nickname), HttpGet (ResolveVanityURL ?n)]"
    using C [THEN conjunct2, THEN conjunct1] b1 b2 by simp
  have PF: "performed constructor (snd (start steam ?t (constructor\<lparr>searchActivated := Some False\<rparr>)))
       = [Emit (loading SteamIDValidation (Some ?t) ID64), HttpGet (GetPlayerSummaries ?t),
          HttpGet (GetOwnedGames ?t), Emit (fetch_event (Resolved ''games''))]"
    using A [THEN conjunct1] by (simp add: R1 resolved games)
  have PT: "performed constructor (snd (start steam ?t (constructor\<lparr>searchActivated := Some True\<rparr>)))
       = [Emit (loading SteamIDValidation (Some ?t) ID64), HttpGet (GetPlayerSummaries ?t),
          Emit (retrieval_success (Some ?t) ?t),
          HttpGet (GetOwnedGames ?t), Emit (fetch_event (Resolved ''games''))]"
    using B [THEN conjunct1] by (simp add: R1 resolved games)
  have NF: "performed constructor (snd (start steam ?n (constructor\<lparr>searchActivated := Some False\<rparr>)))
       = [Emit (loading SteamIDRetrieval (Some ?n) Nickname), HttpGet (ResolveVanityURL ?n)]"
    using C [THEN conjunct1] by (simp add: R2 rejected)
  have NT: "performed constructor (snd (start steam ?n (constructor\<lparr>searchActivated := Some True\<rparr>)))
       = [Emit (loading SteamIDRetrieval (Some ?n) Nickname), HttpGet (ResolveVanityURL ?n),
          Emit (retrieval_failure (InvalidNicknameError ?n) ?n)]"
    using D [THEN conjunct1] by (simp add: R2 rejected)
  have quiet: "list_all (\<lambda>a. \<not> identity_settled a)
        (performed constructor (snd (start steam ?t (constructor\<lparr>searchActivated := Some False\<rparr>))))"
    using A [THEN conjunct2, THEN conjunct2, THEN conjunct2, THEN conjunct2, THEN conjunct2,
             THEN conjunct2, THEN conjunct1]
    by simp
  have falsy: "\<not> truthy (Some False)" by simp
  show ?thesis
    using falsy resolved PF PT quiet rejected NF NT by blast
qed

text \<open>
  Claim C9. Whenever the resolution stage rejects, with one of the four typed errors or
  with anything else, \<^verbatim>\<open>start\<close> rejects without a payload; after what the resolution
  stage itself did, it appends at most the Failure event of the retrieval phase, which
  carries the error and is emitted only if the activation flag is true; and nothing of
  the library-fetch phase happens: no owned-games request and no event of that type.
\<close>

theorem C9_rejected_resolution_aborts:
  "fst (getSteamID env t s) = Rejected err \<Longrightarrow>
     fst (start env t s) = Rejected ()
   \<and> trace (snd (start env t s)) =
       trace (snd (getSteamID env t s)) @
       (if truthy (searchActivated s) then [Emit (retrieval_failure err t)] else [])
   \<and> list_all (\<lambda>a. \<not> library_fetch a) (performed s (snd (start env t s)))"
proof -
  assume rej: "fst (getSteamID env t s) = Rejected err"
  obtain acts where acts: "trace (snd (getSteamID env t s)) = trace s @ acts"
    and quiet: "list_all (\<lambda>a. \<not> identity_settled a \<and> \<not> library_fetch a) acts"
    using getSteamID_trace by blast
  have tr: "trace (snd (start env t s)) =
       trace (snd (getSteamID env t s)) @
       (if truthy (searchActivated s) then [Emit (retrieval_failure err t)] else [])"
    by (simp add: start_trace rej)
  have "performed s (snd (start env t s)) =
       acts @ (if truthy (searchActivated s) then [Emit (retrieval_failure err t)] else [])"
    by (rule performed_append) (simp add: tr acts)
  then have "list_all (\<lambda>a. \<not> library_fetch a) (performed s (snd (start env t s)))"
    using quiet_no_fetch [OF quiet] by (simp add: retrieval_failure_def)
  then show ?thesis
    using tr by (simp add: start_outcome rej)
qed

theorem C9_witness:
  "fst (getSteamID steam ''123'' (constructor\<lparr>searchActivated := Some True\<rparr>))
     = Rejected (InvalidSteamID64Error ''123'')
   \<and> start steam ''123'' (constructor\<lparr>searchActivated := Some True\<rparr>) =
       (Rejected (),
        \<lparr>searchActivated = Some True,
         trace = [Emit (loading SteamIDValidation (Some ''123'') ID64),
                  HttpGet (GetPlayerSummaries ''123''),
                  Emit (retrieval_failure (InvalidSteamID64Error ''123'') ''123'')]\<rparr>)"
proof -
  have rej: "fst (getSteamID steam ''123'' (constructor\<lparr>searchActivated := Some True\<rparr>))
     = Rejected (InvalidSteamID64Error ''123'')"
    by code_simp
  have tr: "snd (getSteamID steam ''123'' (constructor\<lparr>searchActivated := Some True\<rparr>))
     = \<lparr>searchActivated = Some True,
         trace = [Emit (loading SteamIDValidation (Some ''123'') ID64),
                  HttpGet (GetPlayerSummaries ''123'')]\<rparr>"
    by code_simp
  have fl: "searchActivated (snd (start steam ''123'' (constructor\<lparr>searchActivated := Some True\<rparr>))) = Some True"
    by (simp add: start_flag constructor_def)
  show ?thesis
    using C9_rejected_resolution_aborts [OF rej] rej tr fl
    by (cases "start steam ''123'' (constructor\<lparr>searchActivated := Some True\<rparr>)")
       (simp add: constructor_def)
qed

subsection \<open>The four resolution paths\<close>

text \<open>
  Claim C5. For a non-empty search term that \<^verbatim>\<open>Validator.isNumeric\<close> accepts, the
  resolution stage emits the Loading event of the validation phase and issues one
  validation request for the term, and nothing else; the whole invocation of
  \<^verbatim>\<open>start\<close> issues exactly that one validation request. If the response lists at
  least one player the stage resolves with the term unchanged, and if it lists none
  the stage rejects with \<open>InvalidSteamID64Error\<close>.
\<close>

theorem C5_numeric_input:
  "t \<noteq> [] \<Longrightarrow> isNumeric env t \<Longrightarrow>
     trace (snd (getSteamID env t s)) =
       trace s @ [Emit (loading SteamIDValidation (Some t) ID64), HttpGet (GetPlayerSummaries t)]
   \<and> filter validation_request (performed s (snd (start env t s))) = [HttpGet (GetPlayerSummaries t)]
   \<and> (\<forall>players. playerSummaries env t = Resolved players \<and> players \<noteq> [] \<longrightarrow>
         fst (getSteamID env t s) = Resolved (Some t))
   \<and> (playerSummaries env t = Resolved [] \<longrightarrow>
         fst (getSteamID env t s) = Rejected (InvalidSteamID64Error t))"
proof -
  assume nonempty: "t \<noteq> []" and numeric: "isNumeric env t"
  have tr: "trace (snd (getSteamID env t s)) =
       trace s @ [Emit (loading SteamIDValidation (Some t) ID64), HttpGet (GetPlayerSummaries t)]"
    using nonempty numeric
    by (simp add: getSteamID_def remote_defs loading_def Let_def split: promise.splits)
  have res: "fst (getSteamID env t s) =
       (case playerSummaries env t of
          Rejected e \<Rightarrow> Rejected e
        | Resolved players \<Rightarrow>
            if players \<noteq> [] then Resolved (Some t) else Rejected (InvalidSteamID64Error t))"
    using nonempty numeric
    by (simp add: getSteamID_def remote_defs Let_def split: promise.splits)
  have "performed s (snd (start env t s)) =
       [Emit (loading SteamIDValidation (Some t) ID64), HttpGet (GetPlayerSummaries t)] @
       (case fst (getSteamID env t s) of
        Resolved res \<Rightarrow>
          (if truthy (searchActivated s) then [Emit (retrieval_success res t)] else []) @
          [HttpGet (GetOwnedGames (interpolate res)),
           Emit (fetch_event (ownedGames env (interpolate res)))]
      | Rejected err \<Rightarrow>
          (if truthy (searchActivated s) then [Emit (retrieval_failure err t)] else []))"
    by (rule performed_append) (simp add: start_trace tr)
  then have "filter validation_request (performed s (snd (start env t s))) = [HttpGet (GetPlayerSummaries t)]"
    by (simp split: promise.splits)
  then show ?thesis
    using tr res by simp
qed


theorem C5_witness:
  "''76561197960287930'' \<noteq> [] \<and> isNumeric steam ''76561197960287930''
   \<and> playerSummaries steam ''76561197960287930'' = Resolved [''gaben'']
   \<and> fst (getSteamID steam ''76561197960287930'' constructor) = Resolved (Some ''76561197960287930'')
   \<and> filter validation_request (performed constructor (snd (start steam ''76561197960287930'' constructor)))
       = [HttpGet (GetPlayerSummaries ''76561197960287930'')]
   \<and> ''123'' \<noteq> [] \<and> isNumeric steam ''123''
   \<and> playerSummaries steam ''123'' = Resolved []
   \<and> fst (getSteamID steam ''123'' constructor) = Rejected (InvalidSteamID64Error ''123'')"
proof -
  have n1: "isNumeric steam ''76561197960287930''" by code_simp
  have n2: "isNumeric steam ''123''" by code_simp
  have p1: "playerSummaries steam ''76561197960287930'' = Resolved [''gaben'']"
    by (simp add: steam_def)
  have p2: "playerSummaries steam ''123'' = Resolved []"
    by (simp add: steam_def)
  show ?thesis
    using C5_numeric_input [OF _ n1, of constructor] C5_numeric_input [OF _ n2, of constructor] n1 n2 p1 p2
    by simp
qed

text \<open>
  Claim C6. For a non-empty, non-numeric term that matches the URL expression, parses to a
  URL whose host name contains \<^verbatim>\<open>steamcommunity\<close> and whose first non-empty path
  segment is \<^verbatim>\<open>id\<close>, the resolution stage emits the Loading event of the retrieval
  phase and issues the vanity-resolution request for the second segment. If the response
  carries a non-empty steamid the stage resolves with that steamid; if it carries none
  (or an empty one) the stage rejects with \<open>InvalidProfileURLError\<close> and \<^verbatim>\<open>start\<close>
  rejects.
\<close>

theorem C6_profile_url:
  assumes "t \<noteq> []" and "\<not> isNumeric env t" and "matches t regex"
    and "URL_new env t = Some url"
    and "String_includes (hostname url) ''steamcommunity''"
    and "at (route_of url) 0 = Some ''id''"
  shows
    "trace (snd (getSteamID env t s)) =
       trace s @ [Emit (loading SteamIDRetrieval (at (route_of url) 1) ProfileURL),
                  HttpGet (ResolveVanityURL (interpolate (at (route_of url) 1)))]
   \<and> (\<forall>steamid. resolveVanity env (interpolate (at (route_of url) 1)) = Resolved (Some steamid)
                 \<and> steamid \<noteq> [] \<longrightarrow>
         fst (getSteamID env t s) = Resolved (Some steamid))
   \<and> (\<forall>steamid. resolveVanity env (interpolate (at (route_of url) 1)) = Resolved steamid
                 \<and> \<not> truthy_string steamid \<longrightarrow>
         fst (getSteamID env t s) = Rejected (InvalidProfileURLError t)
       \<and> fst (start env t s) = Rejected ())"
  using assms
  by (simp add: getSteamID_def remote_defs loading_def start_outcome Let_def split: promise.splits)

theorem C6_witness:
  "''https://steamcommunity.com/id/gaben'' \<noteq> []
   \<and> \<not> isNumeric steam ''https://steamcommunity.com/id/gaben''
   \<and> matches ''https://steamcommunity.com/id/gaben'' regex
   \<and> URL_new steam ''https://steamcommunity.com/id/gaben''
        = Some \<lparr>hostname = ''steamcommunity.com'', pathname = ''/id/gaben''\<rparr>
   \<and> route_of \<lparr>hostname = ''steamcommunity.com'', pathname = ''/id/gaben''\<rparr> = [''id'', ''gaben'']
   \<and> resolveVanity steam ''gaben'' = Resolved (Some ''76561197960287930'')
   \<and> getSteamID steam ''https://steamcommunity.com/id/gaben'' constructor =
       (Resolved (Some ''76561197960287930''),
        \<lparr>searchActivated = None,
         trace = [Emit (loading SteamIDRetrieval (Some ''gaben'') ProfileURL),
                  HttpGet (ResolveVanityURL ''gaben'')]\<rparr>)
   \<and> \<not> isNumeric steam ''https://steamcommunity.com/id/nobody''
   \<and> matches ''https://steamcommunity.com/id/nobody'' regex
   \<and> URL_new steam ''https://steamcommunity.com/id/nobody''
        = Some \<lparr>hostname = ''steamcommunity.com'', pathname = ''/id/nobody''\<rparr>
   \<and> resolveVanity steam ''nobody'' = Resolved None
   \<and> fst (getSteamID steam ''https://steamcommunity.com/id/nobody'' constructor)
        = Rejected (InvalidProfileURLError ''https://steamcommunity.com/id/nobody'')
   \<and> fst (start steam ''https://steamcommunity.com/id/nobody'' constructor) = Rejected ()"
proof -
  let ?u = "\<lparr>hostname = ''steamcommunity.com'', pathname = ''/id/gaben''\<rparr>"
  let ?v = "\<lparr>hostname = ''steamcommunity.com'', pathname = ''/id/nobody''\<rparr>"
  have a1: "\<not> isNumeric steam ''https://steamcommunity.com/id/gaben''" by code_simp
  have a2: "matches ''https://steamcommunity.com/id/gaben'' regex" by code_simp
  have a3: "URL_new steam ''https://steamcommunity.com/id/gaben'' = Some ?u" by code_simp
  have a4: "String_includes (hostname ?u) ''steamcommunity''" by code_simp
  have a5: "route_of ?u = [''id'', ''gaben'']" by code_simp
  have a6: "resolveVanity steam ''gaben'' = Resolved (Some ''76561197960287930'')"
    by (simp add: steam_def)
  have b1: "\<not> isNumeric steam ''https://steamcommunity.com/id/nobody''" by code_simp
  have b2: "matches ''https://steamcommunity.com/id/nobody'' regex" by code_simp
  have b3: "URL_new steam ''https://steamcommunity.com/id/nobody'' = Some ?v" by code_simp
  have b4: "String_includes (hostname ?v) ''steamcommunity''" by code_simp
  have b5: "route_of ?v = [''id'', ''nobody'']" by code_simp
  have b6: "resolveVanity steam ''nobody'' = Resolved None"
    by (simp add: steam_def)
  have fl: "searchActivated (snd (getSteamID steam ''https://steamcommunity.com/id/gaben'' constructor)) = None"
    by (simp add: getSteamID_flag constructor_def)
  have tr0: "trace constructor = []"
    by (simp add: constructor_def)
  have g: "getSteamID steam ''https://steamcommunity.com/id/gaben'' constructor =
       (Resolved (Some ''76561197960287930''),
        \<lparr>searchActivated = None,
         trace = [Emit (loading SteamIDRetrieval (Some ''gaben'') ProfileURL),
                  HttpGet (ResolveVanityURL ''gaben'')]\<rparr>)"
    using C6_profile_url [OF _ a1 a2 a3 a4, of constructor] a5 a6 fl tr0
    by (cases "getSteamID steam ''https://steamcommunity.com/id/gaben'' constructor") simp
  have n: "fst (getSteamID steam ''https://steamcommunity.com/id/nobody'' constructor)
        = Rejected (InvalidProfileURLError ''https://steamcommunity.com/id/nobody'')
   \<and> fst (start steam ''https://steamcommunity.com/id/nobody'' constructor) = Rejected ()"
    using C6_profile_url [OF _ b1 b2 b3 b4, of constructor] b5 b6 by simp
  show ?thesis
    using a1 a2 a3 a5 a6 g b1 b2 b3 b6 n by simp
qed

text \<open>
  Claim C7. For a non-empty, non-numeric term that matches the URL expression, parses to a
  URL whose host name contains \<^verbatim>\<open>steamcommunity\<close> and whose first non-empty path
  segment is \<^verbatim>\<open>profiles\<close>, the resolution stage emits the Loading event of the
  validation phase and issues the validation request for the second segment. If the
  response lists at least one player the stage resolves with that segment; if it lists
  none the stage rejects with \<open>InvalidPermalinkError\<close> and \<^verbatim>\<open>start\<close> rejects.
\<close>

theorem C7_permalink_url:
  assumes "t \<noteq> []" and "\<not> isNumeric env t" and "matches t regex"
    and "URL_new env t = Some url"
    and "String_includes (hostname url) ''steamcommunity''"
    and "at (route_of url) 0 = Some ''profiles''"
  shows
    "trace (snd (getSteamID env t s)) =
       trace s @ [Emit (loading SteamIDValidation (at (route_of url) 1) ProfilePermalink),
                  HttpGet (GetPlayerSummaries (interpolate (at (route_of url) 1)))]
   \<and> (\<forall>players. playerSummaries env (interpolate (at (route_of url) 1)) = Resolved players
                 \<and> players \<noteq> [] \<longrightarrow>
         fst (getSteamID env t s) = Resolved (at (route_of url) 1))
   \<and> (playerSummaries env (interpolate (at (route_of url) 1)) = Resolved [] \<longrightarrow>
         fst (getSteamID env t s) = Rejected (InvalidPermalinkError t)
       \<and> fst (start env t s) = Rejected ())"
  using assms
  by (simp add: getSteamID_def remote_defs loading_def start_outcome Let_def split: promise.splits)

theorem C7_witness:
  "''https://steamcommunity.com/profiles/76561197960287930'' \<noteq> []
   \<and> \<not> isNumeric steam ''https://steamcommunity.com/profiles/76561197960287930''
   \<and> matches ''https://steamcommunity.com/profiles/76561197960287930'' regex
   \<and> URL_new steam ''https://steamcommunity.com/profiles/76561197960287930''
        = Some \<lparr>hostname = ''steamcommunity.com'', pathname = ''/profiles/76561197960287930''\<rparr>
   \<and> route_of \<lparr>hostname = ''steamcommunity.com'', pathname = ''/profiles/76561197960287930''\<rparr>
        = [''profiles'', ''76561197960287930'']
   \<and> playerSummaries steam ''76561197960287930'' = Resolved [''gaben'']
   \<and> getSteamID steam ''https://steamcommunity.com/profiles/76561197960287930'' constructor =
       (Resolved (Some ''76561197960287930''),
        \<lparr>searchActivated = None,
         trace = [Emit (loading SteamIDValidation (Some ''76561197960287930'') ProfilePermalink),
                  HttpGet (GetPlayerSummaries ''76561197960287930'')]\<rparr>)
   \<and> \<not> isNumeric steam ''https://steamcommunity.com/profiles/1''
   \<and> matches ''https://steamcommunity.com/profiles/1'' regex
   \<and> URL_new steam ''https://steamcommunity.com/profiles/1''
        = Some \<lparr>hostname = ''steamcommunity.com'', pathname = ''/profiles/1''\<rparr>
   \<and> playerSummaries steam ''1'' = Resolved []
   \<and> fst (getSteamID steam ''https://steamcommunity.com/profiles/1'' constructor)
        = Rejected (InvalidPermalinkError ''https://steamcommunity.com/profiles/1'')
   \<and> fst (start steam ''https://steamcommunity.com/profiles/1'' constructor) = Rejected ()"
proof -
  let ?t = "''https://steamcommunity.com/profiles/76561197960287930''"
  let ?u = "\<lparr>hostname = ''steamcommunity.com'', pathname = ''/profiles/76561197960287930''\<rparr>"
  let ?v = "\<lparr>hostname = ''steamcommunity.com'', pathname = ''/profiles/1''\<rparr>"
  have a1: "\<not> isNumeric steam ?t" by code_simp
  have a2: "matches ?t regex" by code_simp
  have a3: "URL_new steam ?t = Some ?u" by code_simp
  have a4: "String_includes (hostname ?u) ''steamcommunity''" by code_simp
  have a5: "route_of ?u = [''profiles'', ''76561197960287930'']" by code_simp
  have a6: "playerSummaries steam ''76561197960287930'' = Resolved [''gaben'']"
    by (simp add: steam_def)
  have b1: "\<not> isNumeric steam ''https://steamcommunity.com/profiles/1''" by code_simp
  have b2: "matches ''https://steamcommunity.com/profiles/1'' regex" by code_simp
  have b3: "URL_new steam ''https://steamcommunity.com/profiles/1'' = Some ?v" by code_simp
  have b4: "String_includes (hostname ?v) ''steamcommunity''" by code_simp
  have b5: "route_of ?v = [''profiles'', ''1'']" by code_simp
  have b6: "playerSummaries steam ''1'' = Resolved []"
    by (simp add: steam_def)
  have fl: "searchActivated (snd (getSteamID steam ?t constructor)) = None"
    by (simp add: getSteamID_flag constructor_def)
  have tr0: "trace constructor = []"
    by (simp add: constructor_def)
  have g: "getSteamID steam ?t constructor =
       (Resolved (Some ''76561197960287930''),
        \<lparr>searchActivated = None,
         trace = [Emit (loading SteamIDValidation (Some ''76561197960287930'') ProfilePermalink),
                  HttpGet (GetPlayerSummaries ''76561197960287930'')]\<rparr>)"
    using C7_permalink_url [OF _ a1 a2 a3 a4, of constructor] a5 a6 fl tr0
    by (cases "getSteamID steam ?t constructor") simp
  have n: "fst (getSteamID steam ''https://steamcommunity.com/profiles/1'' constructor)
        = Rejected (InvalidPermalinkError ''https://steamcommunity.com/profiles/1'')
   \<and> fst (start steam ''https://steamcommunity.com/profiles/1'' constructor) = Rejected ()"
    using C7_permalink_url [OF _ b1 b2 b3 b4, of constructor] b5 b6 by simp
  show ?thesis
    using a1 a2 a3 a5 a6 g b1 b2 b3 b6 n by simp
qed

text \<open>
  Claim C8. For a non-empty term that is not numeric and does not match the URL expression,
  the resolution stage emits the Loading event of the retrieval phase and issues the
  vanity-resolution request for the whole term. If the response carries a non-empty
  steamid the stage resolves with that steamid; if it carries none (or an empty one) the
  stage rejects with \<open>InvalidNicknameError\<close> and \<^verbatim>\<open>start\<close> rejects.
\<close>

theorem C8_nickname:
  assumes "t \<noteq> []" and "\<not> isNumeric env t" and "\<not> matches t regex"
  shows
    "trace (snd (getSteamID env t s)) =
       trace s @ [Emit (loading SteamIDRetrieval (Some t) Nickname), HttpGet (ResolveVanityURL t)]
   \<and> (\<forall>steamid. resolveVanity env t = Resolved (Some steamid) \<and> steamid \<noteq> [] \<longrightarrow>
         fst (getSteamID env t s) = Resolved (Some steamid))
   \<and> (\<forall>steamid. resolveVanity env t = Resolved steamid \<and> \<not> truthy_string steamid \<longrightarrow>
         fst (getSteamID env t s) = Rejected (InvalidNicknameError t)
       \<and> fst (start env t s) = Rejected ())"
  using assms
  by (simp add: getSteamID_def remote_defs loading_def start_outcome Let_def split: promise.splits)

theorem C8_witness:
  "''gaben'' \<noteq> [] \<and> \<not> isNumeric steam ''gaben'' \<and> \<not> matches ''gaben'' regex
   \<and> resolveVanity steam ''gaben'' = Resolved (Some ''76561197960287930'')
   \<and> getSteamID steam ''gaben'' constructor =
       (Resolved (Some ''76561197960287930''),
        \<lparr>searchActivated = None,
         trace = [Emit (loading SteamIDRetrieval (Some ''gaben'') Nickname),
                  HttpGet (ResolveVanityURL ''gaben'')]\<rparr>)
   \<and> ''nobody'' \<noteq> [] \<and> \<not> isNumeric steam ''nobody'' \<and> \<not> matches ''nobody'' regex
   \<and> resolveVanity steam ''nobody'' = Resolved None
   \<and> fst (getSteamID steam ''nobody'' constructor) = Rejected (InvalidNicknameError ''nobody'')
   \<and> fst (start steam ''nobody'' constructor) = Rejected ()"
proof -
  have a1: "\<not> isNumeric steam ''gaben''" by code_simp
  have a2: "\<not> matches ''gaben'' regex" by code_simp
  have a3: "resolveVanity steam ''gaben'' = Resolved (Some ''76561197960287930'')"
    by (simp add: steam_def)
  have b1: "\<not> isNumeric steam ''nobody''" by code_simp
  have b2: "\<not> matches ''nobody'' regex" by code_simp
  have b3: "resolveVanity steam ''nobody'' = Resolved None"
    by (simp add: steam_def)
  have fl: "searchActivated (snd (getSteamID steam ''gaben'' constructor)) = None"
    by (simp add: getSteamID_flag constructor_def)
  have tr0: "trace constructor = []"
    by (simp add: constructor_def)
  have g: "getSteamID steam ''gaben'' constructor =
       (Resolved (Some ''76561197960287930''),
        \<lparr>searchActivated = None,
         trace = [Emit (loading SteamIDRetrieval (Some ''gaben'') Nickname),
                  HttpGet (ResolveVanityURL ''gaben'')]\<rparr>)"
    using C8_nickname [OF _ a1 a2, of constructor] a3 fl tr0
    by (cases "getSteamID steam ''gaben'' constructor") simp
  have n: "fst (getSteamID steam ''nobody'' constructor) = Rejected (InvalidNicknameError ''nobody'')
   \<and> fst (start steam ''nobody'' constructor) = Rejected ()"
    using C8_nickname [OF _ b1 b2, of constructor] b3 by simp
  show ?thesis
    using a1 a2 a3 g b1 b2 b3 n by simp
qed

subsection \<open>The flag of a freshly constructed service\<close>

text \<open>
  No method of the service assigns \<open>searchActivated\<close>, so a run of invocations leaves it
  as it was, and while it is not true no invocation adds a Success or Failure event of
  the retrieval phase.
\<close>

lemma starts_unsettled:
  "\<not> truthy (searchActivated s) \<Longrightarrow> list_all (\<lambda>a. \<not> identity_settled a) (trace s) \<Longrightarrow>
     searchActivated (starts env ts s) = searchActivated s
   \<and> list_all (\<lambda>a. \<not> identity_settled a) (trace (starts env ts s))"
proof (induction ts arbitrary: s)
  case Nil
  then show ?case by simp
next
  case (Cons t ts)
  obtain acts where acts: "trace (snd (getSteamID env t s)) = trace s @ acts"
    and quiet: "list_all (\<lambda>a. \<not> identity_settled a \<and> \<not> library_fetch a) acts"
    using getSteamID_trace by blast
  have "list_all (\<lambda>a. \<not> identity_settled a) (trace (snd (start env t s)))"
    using Cons.prems quiet_unsettled [OF quiet]
    by (simp add: start_trace acts fetch_event_type split: promise.splits)
  moreover have "\<not> truthy (searchActivated (snd (start env t s)))"
    using Cons.prems by (simp add: start_flag)
  ultimately show ?case
    using Cons.IH [of "snd (start env t s)"] by (simp add: start_flag)
qed

text \<open>
  Claim C10. The constructor leaves the activation flag unset, and \<^verbatim>\<open>start\<close> never
  assigns it. Hence after any run of invocations on a freshly constructed service the flag
  is still unset and the trace holds no Success or Failure event of the retrieval phase.
\<close>

theorem C10_flag_never_initialised:
  "searchActivated constructor = None
   \<and> searchActivated (snd (start env t s)) = searchActivated s
   \<and> searchActivated (starts env ts constructor) = None
   \<and> list_all (\<lambda>a. \<not> identity_settled a) (trace (starts env ts constructor))"
  using starts_unsettled [of constructor env ts]
  by (simp add: constructor_def start_flag)

subsection \<open>Terms that fall through the classification\<close>

text \<open>
  Where the body of \<^verbatim>\<open>getSteamID\<close> ends without a \<^verbatim>\<open>return\<close>, its promise is
  fulfilled with \<^verbatim>\<open>undefined\<close>, and nothing was emitted or requested.
\<close>

lemma getSteamID_unrecognised_url:
  assumes "t \<noteq> []" and "\<not> isNumeric env t" and "matches t regex"
    and "URL_new env t = Some url"
    and "\<not> String_includes (hostname url) ''steamcommunity''
         \<or> (at (route_of url) 0 \<noteq> Some ''id'' \<and> at (route_of url) 0 \<noteq> Some ''profiles'')"
  shows "getSteamID env t s = (Resolved None, s)"
  using assms by (auto simp add: getSteamID_def Let_def)

text \<open>
  Claim C2, evaluated on the empty search term. The resolution stage is fulfilled with
  \<^verbatim>\<open>undefined\<close>, so the fulfilment handler of \<^verbatim>\<open>start\<close> runs: it emits the Success
  event of the retrieval phase if the flag is true, requests the owned games of
  \<^verbatim>\<open>undefined\<close>, emits the event of the library-fetch phase, and settles as that
  request did. The invocation is not silent and does issue a remote call.
\<close>

theorem C2_empty_input_fetches_undefined:
  "start env [] s =
     (case ownedGames env ''undefined'' of
        Resolved games \<Rightarrow> Resolved () | Rejected err \<Rightarrow> Rejected (),
      s\<lparr>trace := trace s
           @ (if truthy (searchActivated s) then [Emit (retrieval_success None [])] else [])
           @ [HttpGet (GetOwnedGames ''undefined''),
              Emit (fetch_event (ownedGames env ''undefined''))]\<rparr>)"
  by (simp add: start_unfold getSteamID_def)

text \<open>
  Claim C3, evaluated on \<^verbatim>\<open>steamcommunity.com/id/gaben\<close>. The URL expression accepts
  the term without a scheme, but the URL constructor does not parse it: \<^verbatim>\<open>getSteamID\<close>
  rejects with the constructor's \<open>TypeError\<close>, \<^verbatim>\<open>start\<close> rejects, and the trace
  gains at most the gated Failure event. No Loading event is emitted and no
  vanity-resolution request is issued.
\<close>

theorem C3_schemeless_url_throws:
  "matches ''steamcommunity.com/id/gaben'' regex
   \<and> URL_parse ''steamcommunity.com/id/gaben'' = None
   \<and> start (env\<lparr>isNumeric := Validator_isNumeric, URL_new := URL_parse\<rparr>)
         ''steamcommunity.com/id/gaben'' s =
       (Rejected (),
        s\<lparr>trace := trace s
             @ (if truthy (searchActivated s)
                then [Emit (retrieval_failure TypeError ''steamcommunity.com/id/gaben'')]
                else [])\<rparr>)"
proof -
  have a1: "\<not> Validator_isNumeric ''steamcommunity.com/id/gaben''" by code_simp
  have a2: "matches ''steamcommunity.com/id/gaben'' regex" by code_simp
  have a3: "URL_parse ''steamcommunity.com/id/gaben'' = None" by code_simp
  have "getSteamID (env\<lparr>isNumeric := Validator_isNumeric, URL_new := URL_parse\<rparr>)
          ''steamcommunity.com/id/gaben'' s = (Rejected TypeError, s)"
    using a1 a2 a3 by (simp add: getSteamID_def)
  then show ?thesis
    using a2 a3 by (simp add: start_unfold)
qed

text \<open>
  Claim C4, evaluated on \<^verbatim>\<open>https://example.com/\<close>, whose host is not the community
  domain, and on \<^verbatim>\<open>https://steamcommunity.com/market\<close>, whose first path segment is
  neither \<^verbatim>\<open>id\<close> nor \<^verbatim>\<open>profiles\<close>; both match the URL expression. The resolution
  stage is fulfilled with \<^verbatim>\<open>undefined\<close> and \<^verbatim>\<open>start\<close> carries on as for the
  empty term: the gated Success event, the owned-games request for \<^verbatim>\<open>undefined\<close>, and
  the event of the library-fetch phase.
\<close>

theorem C4_unrecognised_url_fetches_undefined:
  "matches ''https://example.com/'' regex
   \<and> URL_parse ''https://example.com/'' = Some \<lparr>hostname = ''example.com'', pathname = ''/''\<rparr>
   \<and> start (env\<lparr>isNumeric := Validator_isNumeric, URL_new := URL_parse\<rparr>)
         ''https://example.com/'' s =
       (case ownedGames env ''undefined'' of
          Resolved games \<Rightarrow> Resolved () | Rejected err \<Rightarrow> Rejected (),
        s\<lparr>trace := trace s
             @ (if truthy (searchActivated s)
                then [Emit (retrieval_success None ''https://example.com/'')] else [])
             @ [HttpGet (GetOwnedGames ''undefined''),
                Emit (fetch_event (ownedGames env ''undefined''))]\<rparr>)
   \<and> matches ''https://steamcommunity.com/market'' regex
   \<and> URL_parse ''https://steamcommunity.com/market''
        = Some \<lparr>hostname = ''steamcommunity.com'', pathname = ''/market''\<rparr>
   \<and> start (env\<lparr>isNumeric := Validator_isNumeric, URL_new := URL_parse\<rparr>)
         ''https://steamcommunity.com/market'' s =
       (case ownedGames env ''undefined'' of
          Resolved games \<Rightarrow> Resolved () | Rejected err \<Rightarrow> Rejected (),
        s\<lparr>trace := trace s
             @ (if truthy (searchActivated s)
                then [Emit (retrieval_success None ''https://steamcommunity.com/market'')] else [])
             @ [HttpGet (GetOwnedGames ''undefined''),
                Emit (fetch_event (ownedGames env ''undefined''))]\<rparr>)"
proof -
  let ?env = "env\<lparr>isNumeric := Validator_isNumeric, URL_new := URL_parse\<rparr>"
  have a1: "\<not> Validator_isNumeric ''https://example.com/''" by code_simp
  have a2: "matches ''https://example.com/'' regex" by code_simp
  have a3: "URL_parse ''https://example.com/'' = Some \<lparr>hostname = ''example.com'', pathname = ''/''\<rparr>"
    by code_simp
  have a4: "\<not> String_includes ''example.com'' ''steamcommunity''" by code_simp
  have a: "getSteamID ?env ''https://example.com/'' s = (Resolved None, s)"
    using a1 a2 a3 a4 by (simp add: getSteamID_def)
  have b1: "\<not> Validator_isNumeric ''https://steamcommunity.com/market''" by code_simp
  have b2: "matches ''https://steamcommunity.com/market'' regex" by code_simp
  have b3: "URL_parse ''https://steamcommunity.com/market''
        = Some \<lparr>hostname = ''steamcommunity.com'', pathname = ''/market''\<rparr>"
    by code_simp
  have b4: "route_of \<lparr>hostname = ''steamcommunity.com'', pathname = ''/market''\<rparr> = [''market'']"
    by code_simp
  have b: "getSteamID ?env ''https://steamcommunity.com/market'' s = (Resolved None, s)"
    using b1 b2 b3 b4 by (simp add: getSteamID_def)
  show ?thesis
    using a2 a3 b2 b3 by (simp add: start_unfold a b)
qed

end
